theory Spec2Isabelle
  imports Main "HOL-Library.Sublist"
begin

section \<open>The program \<open>scripts/connect.cpp\<close>\<close>

text \<open>
  The whole program is one \<open>main\<close>:
  \<^verbatim>\<open>
  int main() {
      try {
          DuckDB db("my_duck_database.db");
          Connection con(db);
          // auto result = con.Query("SELECT table_name FROM ...");
          // if (result->HasError()) { ...; return 1; }
          // std::cout << "Tables in database:" << std::endl;
          // while (result->Next()) { ... result->GetValue(0, 0).ToString() ... }
      } catch (std::exception &ex) {
          std::cerr << "Exception: " << ex.what() << std::endl;
          return 1;
      }
      return 0;
  }
  \<close>
  The two constructors belong to the embedded engine, which is not part of the
  repository: they are parameters of the model. Everything else (the order of the
  calls, the release of the automatic objects when the block is left, the handler and
  the exit code) is the program's and is written out below.
\<close>

subsection \<open>Thrown values\<close>

text \<open>
  A constructor either completes or throws. What is thrown is one of three things.
  \<^item> \<open>StdException\<close>: an object whose class has \<open>std::exception\<close> as a public,
    unambiguous base. The object has a class and the text that \<open>what()\<close> returns; the
    program reads only the text.
  \<^item> \<open>InaccessibleStdException\<close>: an object whose class is derived from
    \<open>std::exception\<close> privately or ambiguously, so that a reference to
    \<open>std::exception\<close> cannot be bound to it.
  \<^item> \<open>Foreign\<close>: a value of a type that is not derived from \<open>std::exception\<close>, such
    as an \<open>int\<close>.
  The classes told apart are those of the two kinds of acquisition error that the
  spec names, the open/IO error and the connection error, and any other class.
\<close>

datatype exception_class = IO_exception | Connection_exception | Other_exception

datatype thrown =
    StdException exception_class string
  | InaccessibleStdException string
  | Foreign int

fun derived_from_std_exception :: "thrown \<Rightarrow> bool" where
  "derived_from_std_exception (StdException k w) = True"
| "derived_from_std_exception (InaccessibleStdException w) = True"
| "derived_from_std_exception (Foreign v) = False"

text \<open>
  The handler \<open>catch (std::exception &ex)\<close> matches a thrown object exactly when
  \<open>std::exception\<close> is a public, unambiguous base of its class. Being derived from
  \<open>std::exception\<close> is necessary for the match and not sufficient.
\<close>

fun handler_matches :: "thrown \<Rightarrow> bool" where
  "handler_matches (StdException k w) = True"
| "handler_matches (InaccessibleStdException w) = False"
| "handler_matches (Foreign v) = False"

subsection \<open>The environment of a run\<close>

text \<open>
  \<open>'d\<close> is the type of database handles and \<open>'c\<close> the type of connection handles.
  \<open>unwind_uncaught\<close> is the implementation's choice of whether automatic objects are
  destroyed when no handler matches and \<open>std::terminate\<close> is called.
\<close>

record ('d, 'c) environment =
  DuckDB_ctor :: "string \<Rightarrow> thrown + 'd"
  Connection_ctor :: "'d \<Rightarrow> thrown + 'c"
  unwind_uncaught :: bool

subsection \<open>Observable events\<close>

text \<open>
  A run is observed as the sequence of its calls into the engine, the program's own
  writes to \<open>std::cout\<close> and \<open>std::cerr\<close>, and the entry into the handler. What the
  C++ runtime itself prints when it calls \<open>std::terminate\<close> is not an event of the
  program. The four result-set events are those of the commented-out block; they are
  part of the engine's interface, and the active code never produces them.
\<close>

datatype ('d, 'c) event =
    DuckDB_ctor_call string "thrown + 'd"
  | Connection_ctor_call 'd "thrown + 'c"
  | Connection_dtor 'c
  | DuckDB_dtor 'd
  | Query 'c string
  | Result_HasError 'c
  | Result_Next 'c
  | Result_GetValue 'c nat nat
  | Cout string
  | Cerr string
  | Catch thrown

datatype ('d, 'c) object = Db_object 'd | Con_object 'c

fun destroy :: "('d, 'c) object \<Rightarrow> ('d, 'c) event" where
  "destroy (Db_object d) = DuckDB_dtor d"
| "destroy (Con_object c) = Connection_dtor c"

text \<open>
  The state of the \<open>try\<close> block: what has happened so far, and the automatic objects
  that are constructed and not yet destroyed, the most recent first.
\<close>

record ('d, 'c) state =
  trace :: "('d, 'c) event list"
  automatic :: "('d, 'c) object list"

definition init :: "('d, 'c) state" where
  "init = \<lparr>trace = [], automatic = []\<rparr>"

definition emit :: "('d, 'c) event \<Rightarrow> ('d, 'c) state \<Rightarrow> ('d, 'c) state" where
  "emit e s = s\<lparr>trace := trace s @ [e]\<rparr>"

text \<open>
  Leaving the block, normally or by a throw, destroys its automatic objects in the
  reverse order of their construction. Destructors are \<open>noexcept\<close>: a release always
  completes. When a throw is caught, the objects are destroyed before the handler's
  body runs.
\<close>

definition leave_scope :: "('d, 'c) state \<Rightarrow> ('d, 'c) state" where
  "leave_scope s = s\<lparr>trace := trace s @ map destroy (automatic s), automatic := []\<rparr>"

definition construct_DuckDB ::
  "('d, 'c) environment \<Rightarrow> string \<Rightarrow> ('d, 'c) state \<Rightarrow>
     (thrown \<times> ('d, 'c) state) + ('d \<times> ('d, 'c) state)" where
  "construct_DuckDB env path s =
     (let r = DuckDB_ctor env path; s' = emit (DuckDB_ctor_call path r) s in
      case r of
        Inl ex \<Rightarrow> Inl (ex, s')
      | Inr d \<Rightarrow> Inr (d, s'\<lparr>automatic := Db_object d # automatic s'\<rparr>))"

definition construct_Connection ::
  "('d, 'c) environment \<Rightarrow> 'd \<Rightarrow> ('d, 'c) state \<Rightarrow>
     (thrown \<times> ('d, 'c) state) + ('c \<times> ('d, 'c) state)" where
  "construct_Connection env d s =
     (let r = Connection_ctor env d; s' = emit (Connection_ctor_call d r) s in
      case r of
        Inl ex \<Rightarrow> Inl (ex, s')
      | Inr c \<Rightarrow> Inr (c, s'\<lparr>automatic := Con_object c # automatic s'\<rparr>))"

subsection \<open>The \<open>try\<close> block and \<open>main\<close>\<close>

definition db_path :: string where
  "db_path = ''my_duck_database.db''"

definition try_block ::
  "('d, 'c) environment \<Rightarrow> ('d, 'c) state \<Rightarrow> (thrown \<times> ('d, 'c) state) + ('d, 'c) state" where
  "try_block env s =
     (case construct_DuckDB env db_path s of
        Inl t \<Rightarrow> Inl t
      | Inr (db, s1) \<Rightarrow>
          (case construct_Connection env db s1 of
             Inl t \<Rightarrow> Inl t
           | Inr (con, s2) \<Rightarrow> Inr (leave_scope s2)))"

text \<open>
  A run ends by \<open>main\<close> returning an exit code, or by \<open>std::terminate\<close> when a thrown
  value leaves \<open>main\<close>.
\<close>

datatype outcome = Exit int | Terminate thrown

record ('d, 'c) run =
  events :: "('d, 'c) event list"
  outcome :: outcome

definition newline :: string where
  "newline = [CHR 0x0A]"

text \<open>
  A thrown value that the handler does not match leaves \<open>main\<close>: the run ends in
  \<open>std::terminate\<close>, with or without the automatic objects destroyed first.
\<close>

definition uncaught ::
  "('d, 'c) environment \<Rightarrow> thrown \<Rightarrow> ('d, 'c) state \<Rightarrow> ('d, 'c) run" where
  "uncaught env ex s =
     \<lparr>events = trace (if unwind_uncaught env then leave_scope s else s),
      outcome = Terminate ex\<rparr>"

definition main :: "('d, 'c) environment \<Rightarrow> ('d, 'c) run" where
  "main env =
     (case try_block env init of
        Inr s \<Rightarrow> \<lparr>events = trace s, outcome = Exit 0\<rparr>
      | Inl (ex, s) \<Rightarrow>
          (case ex of
             StdException k w \<Rightarrow>
               \<lparr>events = trace (emit (Cerr (''Exception: '' @ w @ newline))
                                  (emit (Catch ex) (leave_scope s))),
                outcome = Exit 1\<rparr>
           | InaccessibleStdException w \<Rightarrow> uncaught env ex s
           | Foreign v \<Rightarrow> uncaught env ex s))"

subsection \<open>Reading a run\<close>

fun exit_code :: "outcome \<Rightarrow> int option" where
  "exit_code (Exit n) = Some n"
| "exit_code (Terminate ex) = None"

fun stderr_text :: "('d, 'c) event \<Rightarrow> string" where
  "stderr_text (Cerr t) = t"
| "stderr_text e = []"

fun stdout_text :: "('d, 'c) event \<Rightarrow> string" where
  "stdout_text (Cout t) = t"
| "stdout_text e = []"

text \<open>The text that the program writes to each stream in a run.\<close>

definition stderr_of :: "('d, 'c) event list \<Rightarrow> string" where
  "stderr_of es = concat (map stderr_text es)"

definition stdout_of :: "('d, 'c) event list \<Rightarrow> string" where
  "stdout_of es = concat (map stdout_text es)"

fun is_output :: "('d, 'c) event \<Rightarrow> bool" where
  "is_output (Cout t) = True"
| "is_output (Cerr t) = True"
| "is_output e = False"

fun is_query_event :: "('d, 'c) event \<Rightarrow> bool" where
  "is_query_event (Query c q) = True"
| "is_query_event (Result_HasError c) = True"
| "is_query_event (Result_Next c) = True"
| "is_query_event (Result_GetValue c i j) = True"
| "is_query_event e = False"

fun is_engine_call :: "('d, 'c) event \<Rightarrow> bool" where
  "is_engine_call (Cout t) = False"
| "is_engine_call (Cerr t) = False"
| "is_engine_call (Catch ex) = False"
| "is_engine_call e = True"

fun is_DuckDB_dtor :: "('d, 'c) event \<Rightarrow> bool" where
  "is_DuckDB_dtor (DuckDB_dtor d) = True"
| "is_DuckDB_dtor e = False"

text \<open>The events in which a connection is constructed, used or released.\<close>

fun is_connection_event :: "('d, 'c) event \<Rightarrow> bool" where
  "is_connection_event (Connection_ctor_call d r) = True"
| "is_connection_event (Connection_dtor c) = True"
| "is_connection_event (Query c q) = True"
| "is_connection_event (Result_HasError c) = True"
| "is_connection_event (Result_Next c) = True"
| "is_connection_event (Result_GetValue c i j) = True"
| "is_connection_event e = False"

text \<open>The part of a trace from the first release of a database handle on.\<close>

definition from_database_release :: "('d, 'c) event list \<Rightarrow> ('d, 'c) event list" where
  "from_database_release es = dropWhile (\<lambda>e. \<not> is_DuckDB_dtor e) es"

text \<open>What the \<open>try\<close> block throws in an environment, if it throws.\<close>

definition thrown_in :: "('d, 'c) environment \<Rightarrow> thrown option" where
  "thrown_in env =
     (case DuckDB_ctor env db_path of
        Inl ex \<Rightarrow> Some ex
      | Inr d \<Rightarrow> (case Connection_ctor env d of Inl ex \<Rightarrow> Some ex | Inr c \<Rightarrow> None))"

subsection \<open>Handle lifetimes along a trace\<close>

text \<open>
  The discipline of the two handles, replayed over a trace. \<open>dbs\<close> are the live
  database handles and \<open>cons\<close> the live connections, each with the database it was
  opened on. A connection is opened on, used on and released on a live database only,
  and a database is released only when no live connection refers to it. The replay
  gives the handles still live at the end, or \<open>None\<close> at the first violation.
\<close>

definition owner_live :: "'d list \<Rightarrow> ('c \<times> 'd) list \<Rightarrow> 'c \<Rightarrow> bool" where
  "owner_live dbs cons c = (case map_of cons c of None \<Rightarrow> False | Some d \<Rightarrow> d \<in> set dbs)"

fun lifetimes ::
  "'d list \<Rightarrow> ('c \<times> 'd) list \<Rightarrow> ('d, 'c) event list \<Rightarrow> ('d list \<times> ('c \<times> 'd) list) option" where
  "lifetimes dbs cons [] = Some (dbs, cons)"
| "lifetimes dbs cons (DuckDB_ctor_call p (Inr d) # es) = lifetimes (d # dbs) cons es"
| "lifetimes dbs cons (DuckDB_ctor_call p (Inl ex) # es) = lifetimes dbs cons es"
| "lifetimes dbs cons (Connection_ctor_call d (Inr c) # es) =
     (if d \<in> set dbs then lifetimes dbs ((c, d) # cons) es else None)"
| "lifetimes dbs cons (Connection_ctor_call d (Inl ex) # es) =
     (if d \<in> set dbs then lifetimes dbs cons es else None)"
| "lifetimes dbs cons (Connection_dtor c # es) =
     (if owner_live dbs cons c then lifetimes dbs (filter (\<lambda>(c', d). c' \<noteq> c) cons) es
      else None)"
| "lifetimes dbs cons (DuckDB_dtor d # es) =
     (if d \<in> set dbs \<and> d \<notin> set (map snd cons) then lifetimes (remove1 d dbs) cons es
      else None)"
| "lifetimes dbs cons (Query c q # es) =
     (if owner_live dbs cons c then lifetimes dbs cons es else None)"
| "lifetimes dbs cons (Result_HasError c # es) =
     (if owner_live dbs cons c then lifetimes dbs cons es else None)"
| "lifetimes dbs cons (Result_Next c # es) =
     (if owner_live dbs cons c then lifetimes dbs cons es else None)"
| "lifetimes dbs cons (Result_GetValue c i j # es) =
     (if owner_live dbs cons c then lifetimes dbs cons es else None)"
| "lifetimes dbs cons (Cout t # es) = lifetimes dbs cons es"
| "lifetimes dbs cons (Cerr t # es) = lifetimes dbs cons es"
| "lifetimes dbs cons (Catch ex # es) = lifetimes dbs cons es"

subsection \<open>Concrete environments\<close>

text \<open>
  Handles are numbered. \<open>env_fresh\<close>: both constructors complete.
  \<open>env_unwritable\<close>: the database cannot be opened. \<open>env_no_connection\<close>: the
  database opens and the connection does not. \<open>env_foreign_open\<close> and
  \<open>env_foreign_connect\<close>: a constructor throws a value that is not a
  \<open>std::exception\<close>. \<open>env_private_base\<close>: the constructor of the database throws an
  object whose class derives from \<open>std::exception\<close> privately.
  \<open>env_only_test_db\<close>: only the path \<open>test.db\<close> can be opened.
\<close>

definition env_fresh :: "(nat, nat) environment" where
  "env_fresh =
     \<lparr>DuckDB_ctor = (\<lambda>p. Inr 1), Connection_ctor = (\<lambda>d. Inr 2), unwind_uncaught = False\<rparr>"

definition env_unwritable :: "(nat, nat) environment" where
  "env_unwritable =
     \<lparr>DuckDB_ctor = (\<lambda>p. Inl (StdException IO_exception ''IO Error: Cannot open file'')),
      Connection_ctor = (\<lambda>d. Inr 2), unwind_uncaught = False\<rparr>"



definition env_foreign_connect :: "(nat, nat) environment" where
  "env_foreign_connect =
     \<lparr>DuckDB_ctor = (\<lambda>p. Inr 1), Connection_ctor = (\<lambda>d. Inl (Foreign 42)),
      unwind_uncaught = True\<rparr>"


definition env_only_test_db :: "(nat, nat) environment" where
  "env_only_test_db =
     \<lparr>DuckDB_ctor =
        (\<lambda>p. if p = ''test.db'' then Inr 1 else Inl (StdException IO_exception ''IO Error: Cannot open file'')),
      Connection_ctor = (\<lambda>d. Inr 2), unwind_uncaught = False\<rparr>"

subsection \<open>The engine's open operation\<close>

text \<open>
  Modelled from the spec: the state in which the engine finds the file at a path. The
  engine is not in the repository. The spec (4.1, open database) tells the paths at
  which the open fails, "the path is invalid, unwritable, or the file is
  locked/corrupted", from those at which it succeeds, where the file is there or is
  created ("may create the database file on disk if absent").
\<close>

datatype path_condition = Absent | Present | Invalid | Unwritable | Locked | Corrupted

text \<open>
  Modelled from the spec: the conditions under which the open operation of the engine
  fails (spec 4.1).
\<close>

fun open_fails :: "path_condition \<Rightarrow> bool" where
  "open_fails Absent = False"
| "open_fails Present = False"
| "open_fails Invalid = True"
| "open_fails Unwritable = True"
| "open_fails Locked = True"
| "open_fails Corrupted = True"

text \<open>
  Modelled from the spec: the constructor of the database handle, which belongs to the
  engine and is missing from the repository. Spec 4.1: input a file path, result an
  opened handle on success; it "fails with an open/IO error kind if the path is
  invalid, unwritable, or the file is locked/corrupted". The handle's one attribute is
  the file path (spec 3). The spec does not give the text of the message: it is the
  parameter \<open>message\<close>.
\<close>

definition spec_open_database ::
  "(string \<Rightarrow> path_condition) \<Rightarrow> (string \<Rightarrow> string) \<Rightarrow> string \<Rightarrow> thrown + string" where
  "spec_open_database condition message path =
     (if open_fails (condition path) then Inl (StdException IO_exception (message path))
      else Inr path)"

text \<open>
  An environment with that constructor, in which the file of the program cannot be
  written.
\<close>

definition env_spec_unwritable :: "(string, nat) environment" where
  "env_spec_unwritable =
     \<lparr>DuckDB_ctor = spec_open_database (\<lambda>p. Unwritable) (\<lambda>p. ''Cannot open file '' @ p),
      Connection_ctor = (\<lambda>d. Inr 2), unwind_uncaught = False\<rparr>"

section \<open>The shapes of a run\<close>

text \<open>
  An environment decides the run: both constructors complete, or the first or the
  second throws, a value that the handler matches or one that it does not.
\<close>

lemmas main_unfold =
  main_def uncaught_def try_block_def construct_DuckDB_def construct_Connection_def
  leave_scope_def emit_def init_def

lemma environment_cases:
  obtains
    (both) d c where "DuckDB_ctor env db_path = Inr d" and "Connection_ctor env d = Inr c"
  | (db_std) k w where "DuckDB_ctor env db_path = Inl (StdException k w)"
  | (db_uncaught) ex where "DuckDB_ctor env db_path = Inl ex" and "\<not> handler_matches ex"
  | (con_std) d k w where "DuckDB_ctor env db_path = Inr d"
      and "Connection_ctor env d = Inl (StdException k w)"
  | (con_uncaught) d ex where "DuckDB_ctor env db_path = Inr d"
      and "Connection_ctor env d = Inl ex" and "\<not> handler_matches ex"
proof (cases "DuckDB_ctor env db_path")
  case (Inl ex)
  then show ?thesis using db_std db_uncaught by (cases ex) auto
next
  case (Inr d)
  show ?thesis
  proof (cases "Connection_ctor env d")
    case (Inl ex)
    with Inr show ?thesis using con_std con_uncaught by (cases ex) auto
  next
    case inr: (Inr c)
    with Inr show ?thesis using both by auto
  qed
qed

lemma main_both_constructed:
  assumes "DuckDB_ctor env db_path = Inr d" and "Connection_ctor env d = Inr c"
  shows "main env =
           \<lparr>events = [DuckDB_ctor_call db_path (Inr d), Connection_ctor_call d (Inr c),
                      Connection_dtor c, DuckDB_dtor d],
            outcome = Exit 0\<rparr>"
  using assms by (simp add: main_unfold)

lemma main_db_std:
  assumes "DuckDB_ctor env db_path = Inl (StdException k w)"
  shows "main env =
           \<lparr>events = [DuckDB_ctor_call db_path (Inl (StdException k w)),
                      Catch (StdException k w), Cerr (''Exception: '' @ w @ newline)],
            outcome = Exit 1\<rparr>"
  using assms by (simp add: main_unfold)

lemma main_db_uncaught:
  assumes "DuckDB_ctor env db_path = Inl ex" and "\<not> handler_matches ex"
  shows "main env =
           \<lparr>events = [DuckDB_ctor_call db_path (Inl ex)],
            outcome = Terminate ex\<rparr>"
  using assms by (cases ex) (simp_all add: main_unfold)

lemma main_con_std:
  assumes "DuckDB_ctor env db_path = Inr d" and "Connection_ctor env d = Inl (StdException k w)"
  shows "main env =
           \<lparr>events = [DuckDB_ctor_call db_path (Inr d),
                      Connection_ctor_call d (Inl (StdException k w)), DuckDB_dtor d,
                      Catch (StdException k w), Cerr (''Exception: '' @ w @ newline)],
            outcome = Exit 1\<rparr>"
  using assms by (simp add: main_unfold)

lemma main_con_uncaught:
  assumes "DuckDB_ctor env db_path = Inr d" and "Connection_ctor env d = Inl ex"
    and "\<not> handler_matches ex"
  shows "main env =
           \<lparr>events = [DuckDB_ctor_call db_path (Inr d),
                      Connection_ctor_call d (Inl ex)]
                     @ (if unwind_uncaught env then [DuckDB_dtor d] else []),
            outcome = Terminate ex\<rparr>"
  using assms by (cases ex) (simp_all add: main_unfold)

text \<open>
  A throwing constructor of the database handle, in any environment: the thrown value
  leaves the \<open>try\<close> block as it is, with nothing else done in between.
\<close>

lemma throwing_open_leaves_block:
  assumes "DuckDB_ctor env db_path = Inl ex"
  shows "try_block env init =
           Inl (ex, \<lparr>trace = [DuckDB_ctor_call db_path (Inl ex)], automatic = []\<rparr>)"
    and "thrown_in env = Some ex"
    and "filter is_engine_call (events (main env)) = [DuckDB_ctor_call db_path (Inl ex)]"
    and "Connection_ctor_call d r \<notin> set (events (main env))"
  using assms by (cases ex; simp add: main_unfold thrown_in_def)+

text \<open>
  The replay is a real check: it refuses a trace that releases the database while its
  connection is live, and one that opens a connection on a released database.
\<close>

lemma lifetimes_refuses_database_first:
  "lifetimes [] [] [DuckDB_ctor_call p (Inr d), Connection_ctor_call d (Inr c),
                    DuckDB_dtor d, Connection_dtor c] = None"
  by simp

lemma lifetimes_refuses_dead_database:
  "lifetimes [] [] [DuckDB_ctor_call p (Inr d), DuckDB_dtor d,
                    Connection_ctor_call d (Inr c)] = None"
  by simp

section \<open>The success path\<close>

text \<open>
  C3. In every run in which the database handle and the connection handle are both
  constructed, \<open>main\<close> returns exit code 0 and nothing is written to the error stream
  or to the output stream. No query is executed in such a run.
\<close>

theorem both_constructed_exit_0_silent:
  assumes "DuckDB_ctor env db_path = Inr d" and "Connection_ctor env d = Inr c"
  shows "outcome (main env) = Exit 0
       \<and> stderr_of (events (main env)) = []
       \<and> stdout_of (events (main env)) = []
       \<and> filter is_output (events (main env)) = []
       \<and> filter is_query_event (events (main env)) = []"
  using main_both_constructed [OF assms]
  by (simp add: stderr_of_def stdout_of_def)

theorem both_constructed_exit_0_silent_witness:
  "DuckDB_ctor env_fresh db_path = Inr 1 \<and> Connection_ctor env_fresh 1 = Inr 2
   \<and> outcome (main env_fresh) = Exit 0
   \<and> stderr_of (events (main env_fresh)) = []
   \<and> stdout_of (events (main env_fresh)) = []"
proof -
  have h1: "DuckDB_ctor env_fresh db_path = Inr 1" by (simp add: env_fresh_def)
  have h2: "Connection_ctor env_fresh 1 = Inr 2" by (simp add: env_fresh_def)
  from both_constructed_exit_0_silent [OF h1 h2] h1 h2 show ?thesis by simp
qed

section \<open>The handler\<close>

text \<open>
  C1. In every run in which the handler of the \<open>try\<close> block is entered, the run ends
  with exit code 1, the error stream holds exactly one line, \<open>Exception: \<close> followed by
  the message of the caught exception, the output stream holds nothing, and the entry
  into the handler is followed by that one write and by nothing else: no call into the
  engine is made again.
\<close>

theorem caught_writes_diagnostic_exit_1:
  assumes "Catch ex \<in> set (events (main env))"
  shows "outcome (main env) = Exit 1
       \<and> (\<exists>k w. ex = StdException k w
              \<and> stderr_of (events (main env)) = ''Exception: '' @ w @ newline
              \<and> filter is_output (events (main env)) = [Cerr (''Exception: '' @ w @ newline)]
              \<and> (\<exists>before. events (main env) =
                    before @ [Catch ex, Cerr (''Exception: '' @ w @ newline)]))
       \<and> prefix ''Exception: '' (stderr_of (events (main env)))
       \<and> stdout_of (events (main env)) = []"
proof (rule environment_cases [of env])
  fix d c assume "DuckDB_ctor env db_path = Inr d" and "Connection_ctor env d = Inr c"
  from main_both_constructed [OF this] assms show ?thesis by simp
next
  fix k w assume "DuckDB_ctor env db_path = Inl (StdException k w)"
  from main_db_std [OF this] assms show ?thesis
    by (simp add: stderr_of_def stdout_of_def)
next
  fix ex' assume "DuckDB_ctor env db_path = Inl ex'" and "\<not> handler_matches ex'"
  from main_db_uncaught [OF this] assms show ?thesis by simp
next
  fix d k w assume "DuckDB_ctor env db_path = Inr d"
    and "Connection_ctor env d = Inl (StdException k w)"
  from main_con_std [OF this] assms show ?thesis
    by (simp add: stderr_of_def stdout_of_def)
next
  fix d ex' assume "DuckDB_ctor env db_path = Inr d" and "Connection_ctor env d = Inl ex'"
    and "\<not> handler_matches ex'"
  from main_con_uncaught [OF this] assms show ?thesis by (simp split: if_splits)
qed

theorem caught_writes_diagnostic_exit_1_witness:
  "Catch (StdException IO_exception ''IO Error: Cannot open file'') \<in> set (events (main env_unwritable))
   \<and> outcome (main env_unwritable) = Exit 1
   \<and> stderr_of (events (main env_unwritable))
       = ''Exception: IO Error: Cannot open file'' @ newline
   \<and> stdout_of (events (main env_unwritable)) = []"
proof -
  have h: "Catch (StdException IO_exception ''IO Error: Cannot open file'')
             \<in> set (events (main env_unwritable))"
    by (simp add: main_unfold env_unwritable_def)
  from caught_writes_diagnostic_exit_1 [OF h] h show ?thesis by auto
qed

section \<open>A failing open\<close>

text \<open>
  C6. If opening the database fails, because the path is invalid or unwritable or the
  file is locked or corrupted, the constructor of the database handle signals it by
  throwing an error of the open/IO kind. That error leaves the \<open>try\<close> block as it is,
  with nothing else done in between: the constructor of the connection is not called
  in that run, no handle is released, and the error is the one with which the handler
  of \<open>main\<close> is entered; the run ends with the diagnostic and exit code 1. The
  constructor is the one of the spec; what \<open>main\<close> does with the thrown error is the
  program's.
\<close>

theorem open_failure_signalled_and_propagated:
  assumes "DuckDB_ctor env = spec_open_database condition message"
    and "open_fails (condition db_path)"
  shows "DuckDB_ctor env db_path = Inl (StdException IO_exception (message db_path))
       \<and> try_block env init =
           Inl (StdException IO_exception (message db_path),
                \<lparr>trace = [DuckDB_ctor_call db_path
                            (Inl (StdException IO_exception (message db_path)))],
                 automatic = []\<rparr>)
       \<and> thrown_in env = Some (StdException IO_exception (message db_path))
       \<and> (\<forall>d r. Connection_ctor_call d r \<notin> set (events (main env)))
       \<and> events (main env) =
           [DuckDB_ctor_call db_path (Inl (StdException IO_exception (message db_path))),
            Catch (StdException IO_exception (message db_path)),
            Cerr (''Exception: '' @ message db_path @ newline)]
       \<and> outcome (main env) = Exit 1"
proof -
  from assms have thrown:
    "DuckDB_ctor env db_path = Inl (StdException IO_exception (message db_path))"
    by (simp add: spec_open_database_def)
  from throwing_open_leaves_block [OF thrown] main_db_std [OF thrown] thrown
  show ?thesis by simp
qed

theorem open_failure_signalled_and_propagated_witness:
  "DuckDB_ctor env_spec_unwritable =
     spec_open_database (\<lambda>p. Unwritable) (\<lambda>p. ''Cannot open file '' @ p)
   \<and> open_fails Unwritable
   \<and> thrown_in env_spec_unwritable =
       Some (StdException IO_exception ''Cannot open file my_duck_database.db'')
   \<and> Connection_ctor_call ''my_duck_database.db'' (Inr 2)
       \<notin> set (events (main env_spec_unwritable))
   \<and> outcome (main env_spec_unwritable) = Exit 1"
proof -
  have h: "DuckDB_ctor env_spec_unwritable =
             spec_open_database (\<lambda>p. Unwritable) (\<lambda>p. ''Cannot open file '' @ p)"
    by (simp add: env_spec_unwritable_def)
  have f: "open_fails ((\<lambda>p. Unwritable) db_path)" by simp
  from open_failure_signalled_and_propagated [OF h f] h show ?thesis
    by (simp add: db_path_def)
qed

section \<open>What the handler catches\<close>

text \<open>
  C9. The handler is entered only with a value derived from \<open>std::exception\<close>. When a
  constructor throws any other value, the handler is not entered: the value leaves
  \<open>main\<close>, the run ends in \<open>std::terminate\<close> and not with an exit code, and nothing is
  written to the error stream.
\<close>

theorem handler_matches_std_exception_only:
  "(\<forall>ex. Catch ex \<in> set (events (main env)) \<longrightarrow> derived_from_std_exception ex)
   \<and> (\<forall>ex. thrown_in env = Some ex \<and> \<not> derived_from_std_exception ex \<longrightarrow>
         outcome (main env) = Terminate ex
       \<and> exit_code (outcome (main env)) = None
       \<and> (\<forall>ex'. Catch ex' \<notin> set (events (main env)))
       \<and> stderr_of (events (main env)) = [])"
proof (rule environment_cases [of env])
  fix d c assume "DuckDB_ctor env db_path = Inr d" and "Connection_ctor env d = Inr c"
  from main_both_constructed [OF this] this show ?thesis
    by (simp add: thrown_in_def)
next
  fix k w assume "DuckDB_ctor env db_path = Inl (StdException k w)"
  from main_db_std [OF this] this show ?thesis
    by (simp add: thrown_in_def)
next
  fix ex' assume "DuckDB_ctor env db_path = Inl ex'" and "\<not> handler_matches ex'"
  from main_db_uncaught [OF this] this show ?thesis
    by (simp add: thrown_in_def stderr_of_def)
next
  fix d k w assume "DuckDB_ctor env db_path = Inr d"
    and "Connection_ctor env d = Inl (StdException k w)"
  from main_con_std [OF this] this show ?thesis
    by (simp add: thrown_in_def)
next
  fix d ex' assume "DuckDB_ctor env db_path = Inr d" and "Connection_ctor env d = Inl ex'"
    and "\<not> handler_matches ex'"
  from main_con_uncaught [OF this] this show ?thesis
    by (simp add: thrown_in_def stderr_of_def)
qed

theorem handler_matches_std_exception_only_witness:
  "thrown_in env_foreign_connect = Some (Foreign 42)
   \<and> \<not> derived_from_std_exception (Foreign 42)
   \<and> outcome (main env_foreign_connect) = Terminate (Foreign 42)
   \<and> exit_code (outcome (main env_foreign_connect)) = None
   \<and> Catch (Foreign 42) \<notin> set (events (main env_foreign_connect))
   \<and> stderr_of (events (main env_foreign_connect)) = []
   \<and> Catch (StdException IO_exception ''IO Error: Cannot open file'') \<in> set (events (main env_unwritable))
   \<and> derived_from_std_exception (StdException IO_exception ''IO Error: Cannot open file'')"
proof -
  have h: "thrown_in env_foreign_connect = Some (Foreign 42)"
    by (simp add: thrown_in_def env_foreign_connect_def)
  have c: "Catch (StdException IO_exception ''IO Error: Cannot open file'')
             \<in> set (events (main env_unwritable))"
    by (simp add: main_unfold env_unwritable_def)
  from handler_matches_std_exception_only [of env_foreign_connect]
    handler_matches_std_exception_only [of env_unwritable] h c
  show ?thesis by simp
qed




section \<open>The path of the database file\<close>

text \<open>
  C5, as stated, fails: the path is not \<open>test.db\<close>. In \<open>env_only_test_db\<close> the file
  \<open>test.db\<close> can be created and opened and a connection to it can be made, and the
  run still ends with exit code 1 and a diagnostic, since the program opens
  \<open>my_duck_database.db\<close>.
\<close>

theorem test_db_creatable_run_exits_1:
  "DuckDB_ctor env_only_test_db ''test.db'' = Inr 1
   \<and> Connection_ctor env_only_test_db 1 = Inr 2
   \<and> main env_only_test_db =
       \<lparr>events = [DuckDB_ctor_call ''my_duck_database.db''
                    (Inl (StdException IO_exception ''IO Error: Cannot open file'')),
                  Catch (StdException IO_exception ''IO Error: Cannot open file''),
                  Cerr (''Exception: IO Error: Cannot open file'' @ newline)],
        outcome = Exit 1\<rparr>"
  by (simp add: main_unfold env_only_test_db_def db_path_def)

text \<open>
  C5, amended. The program takes nothing from a command line and opens its database at
  the fixed literal path \<open>my_duck_database.db\<close>: in every environment the first event
  of the run is the constructor call with that path, and no other path is ever opened.
  A run in which that path can be opened and the connection made ends with exit code 0
  and nothing on the error stream.
\<close>

theorem fixed_path_my_duck_database:
  "db_path = ''my_duck_database.db''
   \<and> (\<exists>rest. events (main env) =
          DuckDB_ctor_call ''my_duck_database.db'' (DuckDB_ctor env ''my_duck_database.db'') # rest
        \<and> (\<forall>p r. DuckDB_ctor_call p r \<notin> set rest))
   \<and> (\<forall>d c. DuckDB_ctor env ''my_duck_database.db'' = Inr d \<and> Connection_ctor env d = Inr c \<longrightarrow>
          outcome (main env) = Exit 0 \<and> stderr_of (events (main env)) = [])"
proof (rule environment_cases [of env])
  fix d c assume "DuckDB_ctor env db_path = Inr d" and "Connection_ctor env d = Inr c"
  from main_both_constructed [OF this] this show ?thesis
    by (simp add: db_path_def stderr_of_def)
next
  fix k w assume "DuckDB_ctor env db_path = Inl (StdException k w)"
  from main_db_std [OF this] this show ?thesis
    by (simp add: db_path_def)
next
  fix ex' assume "DuckDB_ctor env db_path = Inl ex'" and "\<not> handler_matches ex'"
  from main_db_uncaught [OF this] this show ?thesis
    by (simp add: db_path_def)
next
  fix d k w assume "DuckDB_ctor env db_path = Inr d"
    and "Connection_ctor env d = Inl (StdException k w)"
  from main_con_std [OF this] this show ?thesis
    by (simp add: db_path_def)
next
  fix d ex' assume "DuckDB_ctor env db_path = Inr d" and "Connection_ctor env d = Inl ex'"
    and "\<not> handler_matches ex'"
  from main_con_uncaught [OF this] this show ?thesis
    by (simp add: db_path_def)
qed

theorem fixed_path_my_duck_database_witness:
  "DuckDB_ctor env_fresh ''my_duck_database.db'' = Inr 1 \<and> Connection_ctor env_fresh 1 = Inr 2
   \<and> outcome (main env_fresh) = Exit 0 \<and> stderr_of (events (main env_fresh)) = []"
proof -
  have h: "DuckDB_ctor env_fresh ''my_duck_database.db'' = Inr 1 \<and> Connection_ctor env_fresh 1 = Inr 2"
    by (simp add: env_fresh_def)
  from fixed_path_my_duck_database [of env_fresh] h show ?thesis by blast
qed

section \<open>The handles\<close>

text \<open>
  C10. The constructor of the connection is called only with the database handle that
  the constructor of the database has just returned: the call is the second event of
  the run, right after the completed construction of that very handle, it happens at
  most once, and at the call the database object is a live automatic object of the
  block, not yet released.
\<close>

theorem connection_opened_on_live_database:
  assumes "Connection_ctor_call d r \<in> set (events (main env))"
  shows "DuckDB_ctor env db_path = Inr d
       \<and> r = Connection_ctor env d
       \<and> (\<exists>rest. events (main env) =
              DuckDB_ctor_call db_path (Inr d) # Connection_ctor_call d r # rest
            \<and> (\<forall>d' r'. Connection_ctor_call d' r' \<notin> set rest))
       \<and> (\<exists>s1. construct_DuckDB env db_path init = Inr (d, s1)
            \<and> automatic s1 = [Db_object d]
            \<and> DuckDB_dtor d \<notin> set (trace s1))"
proof (rule environment_cases [of env])
  fix d' c assume h: "DuckDB_ctor env db_path = Inr d'" "Connection_ctor env d' = Inr c"
  from main_both_constructed [OF h] h assms show ?thesis
    by (auto simp add: construct_DuckDB_def emit_def init_def)
next
  fix k w assume "DuckDB_ctor env db_path = Inl (StdException k w)"
  from main_db_std [OF this] assms show ?thesis by simp
next
  fix ex' assume "DuckDB_ctor env db_path = Inl ex'" and "\<not> handler_matches ex'"
  from main_db_uncaught [OF this] assms show ?thesis by simp
next
  fix d' k w assume h: "DuckDB_ctor env db_path = Inr d'"
    "Connection_ctor env d' = Inl (StdException k w)"
  from main_con_std [OF h] h assms show ?thesis
    by (auto simp add: construct_DuckDB_def emit_def init_def)
next
  fix d' ex' assume h: "DuckDB_ctor env db_path = Inr d'" "Connection_ctor env d' = Inl ex'"
    "\<not> handler_matches ex'"
  from main_con_uncaught [OF h] h assms show ?thesis
    by (auto simp add: construct_DuckDB_def emit_def init_def split: if_splits)
qed

theorem connection_opened_on_live_database_witness:
  "Connection_ctor_call 1 (Inr 2) \<in> set (events (main env_fresh))
   \<and> DuckDB_ctor env_fresh db_path = Inr 1
   \<and> construct_DuckDB env_fresh db_path init =
       Inr (1, \<lparr>trace = [DuckDB_ctor_call db_path (Inr 1)], automatic = [Db_object 1]\<rparr>)"
proof -
  have h: "Connection_ctor_call 1 (Inr 2) \<in> set (events (main env_fresh))"
    by (simp add: main_unfold env_fresh_def)
  have "construct_DuckDB env_fresh db_path init =
       Inr (1, \<lparr>trace = [DuckDB_ctor_call db_path (Inr 1)], automatic = [Db_object 1]\<rparr>)"
    by (simp add: construct_DuckDB_def emit_def init_def env_fresh_def)
  with connection_opened_on_live_database [OF h] h show ?thesis by simp
qed

text \<open>
  C4. In every run the lifetime of the connection handle lies within the lifetime of
  its database handle. The trace of every run passes the replay of the handle
  discipline. A run that constructs the connection has constructed the database handle
  just before, and releases the connection and then the database, in this order, at
  the end of the block. From the release of the database handle on, no event of a
  connection occurs. When \<open>main\<close> returns, on the normal or on the error path, no
  handle is left live.
\<close>

theorem connection_lifetime_nested:
  "(\<exists>live. lifetimes [] [] (events (main env)) = Some live
        \<and> (exit_code (outcome (main env)) \<noteq> None \<longrightarrow> live = ([], [])))
   \<and> (\<forall>d c. Connection_ctor_call d (Inr c) \<in> set (events (main env)) \<longrightarrow>
          events (main env) =
            [DuckDB_ctor_call db_path (Inr d), Connection_ctor_call d (Inr c),
             Connection_dtor c, DuckDB_dtor d])
   \<and> filter is_connection_event (from_database_release (events (main env))) = []"
proof (rule environment_cases [of env])
  fix d c assume "DuckDB_ctor env db_path = Inr d" and "Connection_ctor env d = Inr c"
  from main_both_constructed [OF this] show ?thesis
    by (simp add: owner_live_def from_database_release_def)
next
  fix k w assume "DuckDB_ctor env db_path = Inl (StdException k w)"
  from main_db_std [OF this] show ?thesis
    by (simp add: from_database_release_def)
next
  fix ex' assume "DuckDB_ctor env db_path = Inl ex'" and "\<not> handler_matches ex'"
  from main_db_uncaught [OF this] show ?thesis
    by (simp add: from_database_release_def)
next
  fix d k w assume "DuckDB_ctor env db_path = Inr d"
    and "Connection_ctor env d = Inl (StdException k w)"
  from main_con_std [OF this] show ?thesis
    by (simp add: from_database_release_def)
next
  fix d ex' assume "DuckDB_ctor env db_path = Inr d" and "Connection_ctor env d = Inl ex'"
    and "\<not> handler_matches ex'"
  from main_con_uncaught [OF this] show ?thesis
    by (simp add: from_database_release_def)
qed

theorem connection_lifetime_nested_witness:
  "Connection_ctor_call 1 (Inr 2) \<in> set (events (main env_fresh))
   \<and> exit_code (outcome (main env_fresh)) \<noteq> None
   \<and> lifetimes [] [] (events (main env_fresh)) = Some ([], [])
   \<and> events (main env_fresh) =
       [DuckDB_ctor_call db_path (Inr 1), Connection_ctor_call 1 (Inr 2),
        Connection_dtor 2, DuckDB_dtor 1]"
proof -
  have h: "Connection_ctor_call 1 (Inr 2) \<in> set (events (main env_fresh))"
    by (simp add: main_unfold env_fresh_def)
  have e: "exit_code (outcome (main env_fresh)) \<noteq> None"
    by (simp add: main_unfold env_fresh_def)
  from connection_lifetime_nested [of env_fresh] h e show ?thesis by auto
qed

section \<open>The control flow\<close>




end
